theory Spec2Isabelle
  imports Main "HOL-Library.Word"
begin

unbundle bit_operations_syntax

section \<open>IEEE 754 binary floating point, as Go's float32 and float64\<close>

text \<open>
  The tracker vectors are arrays of Go \<^verbatim>\<open>float32\<close>; the inversion check converts a
  difference to \<^verbatim>\<open>float64\<close>. A value of either type is modelled by its bit pattern:
  one sign bit, \<open>E\<close> exponent bits and \<open>F\<close> fraction bits (\<open>E = 8\<close>, \<open>F = 23\<close> for
  binary32; \<open>E = 11\<close>, \<open>F = 23 + 29\<close> for binary64). A finite pattern denotes
  \<open>\<plusminus> fp_mant * 2 ^ fp_scale\<close>. Addition is exact addition followed by rounding to
  nearest, ties to even, with overflow to infinity. The payload of a NaN result is not
  fixed by Go; every NaN result is the quiet NaN \<open>fp_qnan\<close> here.
\<close>

type_synonym float32 = "32 word"
type_synonym float64 = "64 word"

definition fp_sign :: "nat \<Rightarrow> nat \<Rightarrow> 'a::len word \<Rightarrow> bool" where
  "fp_sign E F w = bit w (E + F)"

definition fp_exp :: "nat \<Rightarrow> nat \<Rightarrow> 'a::len word \<Rightarrow> int" where
  "fp_exp E F w = take_bit E (drop_bit F (uint w))"

definition fp_frac :: "nat \<Rightarrow> 'a::len word \<Rightarrow> int" where
  "fp_frac F w = take_bit F (uint w)"

definition fp_is_nan :: "nat \<Rightarrow> nat \<Rightarrow> 'a::len word \<Rightarrow> bool" where
  "fp_is_nan E F w = (fp_exp E F w = 2 ^ E - 1 \<and> fp_frac F w \<noteq> 0)"

definition fp_is_inf :: "nat \<Rightarrow> nat \<Rightarrow> 'a::len word \<Rightarrow> bool" where
  "fp_is_inf E F w = (fp_exp E F w = 2 ^ E - 1 \<and> fp_frac F w = 0)"

definition fp_lsb :: "nat \<Rightarrow> nat \<Rightarrow> int" where
  \<comment> \<open>the exponent of the smallest subnormal: -149 for binary32, -1074 for binary64\<close>
  "fp_lsb E F = 2 - 2 ^ (E - 1) - int F"

definition fp_mant :: "nat \<Rightarrow> nat \<Rightarrow> 'a::len word \<Rightarrow> int" where
  "fp_mant E F w = (if fp_exp E F w = 0 then fp_frac F w else 2 ^ F + fp_frac F w)"

definition fp_scale :: "nat \<Rightarrow> nat \<Rightarrow> 'a::len word \<Rightarrow> int" where
  "fp_scale E F w =
     (if fp_exp E F w = 0 then fp_lsb E F else fp_exp E F w - 1 + fp_lsb E F)"

definition fp_units :: "nat \<Rightarrow> nat \<Rightarrow> int \<Rightarrow> 'a::len word \<Rightarrow> int" where
  \<comment> \<open>the signed value in units of \<open>2 ^ e0\<close>, for \<open>e0 \<le> fp_scale E F w\<close>; an infinity,
      decoded like a finite pattern, lies beyond every finite value of its sign\<close>
  "fp_units E F e0 w =
     (let v = fp_mant E F w * 2 ^ nat (fp_scale E F w - e0)
      in if fp_sign E F w then - v else v)"

function bit_length :: "int \<Rightarrow> int" where
  "bit_length n = (if n \<le> 0 then 0 else 1 + bit_length (n div 2))"
  by pat_completeness auto
termination
  by (relation "measure nat") auto

declare bit_length.simps [simp del]

definition round_even :: "int \<Rightarrow> nat \<Rightarrow> int" where
  \<comment> \<open>\<open>n / 2 ^ sh\<close> rounded to the nearest integer, a tie to the even one\<close>
  "round_even n sh =
     (let q = n div 2 ^ sh; r = n mod 2 ^ sh; half = 2 ^ (sh - 1)
      in if r < half then q else if half < r then q + 1
         else if even q then q else q + 1)"

definition fp_round :: "nat \<Rightarrow> nat \<Rightarrow> int \<Rightarrow> int \<Rightarrow> int" where
  \<comment> \<open>the exponent and fraction bits of \<open>n * 2 ^ k\<close> (\<open>0 \<le> n\<close>) rounded to the format;
      a carry out of the fraction moves into the exponent field, and anything at or
      beyond the exponent field of all ones is infinity\<close>
  "fp_round E F n k =
     (if n = 0 then 0
      else let qe = max (bit_length n - 1 + k - int F) (fp_lsb E F);
               m = (if qe \<le> k then n * 2 ^ nat (k - qe) else round_even n (nat (qe - k)))
           in min ((qe - fp_lsb E F) * 2 ^ F + m) ((2 ^ E - 1) * 2 ^ F))"

definition fp_pack :: "nat \<Rightarrow> nat \<Rightarrow> bool \<Rightarrow> int \<Rightarrow> 'a::len word" where
  "fp_pack E F s bits = word_of_int (if s then 2 ^ (E + F) + bits else bits)"

definition fp_qnan :: "nat \<Rightarrow> nat \<Rightarrow> 'a::len word" where
  "fp_qnan E F = fp_pack E F False ((2 ^ E - 1) * 2 ^ F + 2 ^ (F - 1))"

definition fp_add :: "nat \<Rightarrow> nat \<Rightarrow> 'a::len word \<Rightarrow> 'a word \<Rightarrow> 'a word" where
  "fp_add E F x y =
     (if fp_is_nan E F x \<or> fp_is_nan E F y then fp_qnan E F
      else if fp_is_inf E F x then
        (if fp_is_inf E F y \<and> fp_sign E F x \<noteq> fp_sign E F y then fp_qnan E F else x)
      else if fp_is_inf E F y then y
      else (let e0 = min (fp_scale E F x) (fp_scale E F y);
                s = fp_units E F e0 x + fp_units E F e0 y
            in if s = 0 then fp_pack E F (fp_sign E F x \<and> fp_sign E F y) 0
               else fp_pack E F (s < 0) (fp_round E F \<bar>s\<bar> e0)))"

definition fp_neg :: "nat \<Rightarrow> nat \<Rightarrow> 'a::len word \<Rightarrow> 'a word" where
  "fp_neg E F x = x XOR push_bit (E + F) 1"

definition fp_gt :: "nat \<Rightarrow> nat \<Rightarrow> 'a::len word \<Rightarrow> 'a word \<Rightarrow> bool" where
  \<comment> \<open>Go's \<^verbatim>\<open>x > y\<close>: false when either side is a NaN\<close>
  "fp_gt E F x y =
     (let e0 = min (fp_scale E F x) (fp_scale E F y)
      in \<not> fp_is_nan E F x \<and> \<not> fp_is_nan E F y \<and> fp_units E F e0 y < fp_units E F e0 x)"

definition fp_eq :: "nat \<Rightarrow> nat \<Rightarrow> 'a::len word \<Rightarrow> 'a word \<Rightarrow> bool" where
  \<comment> \<open>Go's \<^verbatim>\<open>x == y\<close>: a NaN equals nothing, and -0 equals +0\<close>
  "fp_eq E F x y =
     (let e0 = min (fp_scale E F x) (fp_scale E F y)
      in \<not> fp_is_nan E F x \<and> \<not> fp_is_nan E F y \<and> fp_units E F e0 x = fp_units E F e0 y)"

definition fp_of_int :: "nat \<Rightarrow> nat \<Rightarrow> int \<Rightarrow> 'a::len word" where
  "fp_of_int E F n = fp_pack E F (n < 0) (fp_round E F \<bar>n\<bar> 0)"

definition f32_add :: "float32 \<Rightarrow> float32 \<Rightarrow> float32" where
  "f32_add x y = fp_add 8 23 x y"

definition f32_sub :: "float32 \<Rightarrow> float32 \<Rightarrow> float32" where
  "f32_sub x y = fp_add 8 23 x (fp_neg 8 23 y)"

definition f32_gt :: "float32 \<Rightarrow> float32 \<Rightarrow> bool" where
  "f32_gt x y = fp_gt 8 23 x y"

definition f32_eq :: "float32 \<Rightarrow> float32 \<Rightarrow> bool" where
  "f32_eq x y = fp_eq 8 23 x y"

definition f32_const :: "int \<Rightarrow> float32" where
  \<comment> \<open>an integer constant converted to float32, as in \<^verbatim>\<open>float32(170.0)\<close> or \<^verbatim>\<open>x + 180\<close>\<close>
  "f32_const n = fp_of_int 8 23 n"

definition float64_of :: "float32 \<Rightarrow> float64" where
  \<comment> \<open>the conversion \<^verbatim>\<open>float64(x)\<close>\<close>
  "float64_of x =
     (if fp_is_nan 8 23 x then fp_qnan 11 52
      else fp_pack 11 52 (fp_sign 8 23 x)
             (if fp_is_inf 8 23 x then (2 ^ 11 - 1) * 2 ^ 52
              else fp_round 11 52 (fp_mant 8 23 x) (fp_scale 8 23 x)))"

definition math_Abs :: "float64 \<Rightarrow> float64" where
  \<comment> \<open>\<^verbatim>\<open>math.Abs\<close> clears the sign bit\<close>
  "math_Abs x = x AND NOT (push_bit 63 1)"

definition f64_gt :: "float64 \<Rightarrow> float64 \<Rightarrow> bool" where
  "f64_gt x y = fp_gt 11 52 x y"

section \<open>Tracker records and the tracker manager\<close>

text \<open>
  The type \<^verbatim>\<open>[3]float32\<close>: three components, read and written by index. Every index
  in the code is the counter of a loop that stops at 3, so none is out of range.
\<close>

datatype vec3 = Vec3 float32 float32 float32

fun idx :: "vec3 \<Rightarrow> nat \<Rightarrow> float32" where
  "idx (Vec3 a b c) i = (if i = 0 then a else if i = 1 then b else c)"

fun upd :: "vec3 \<Rightarrow> nat \<Rightarrow> float32 \<Rightarrow> vec3" where
  "upd (Vec3 a b c) i v =
     (if i = 0 then Vec3 v b c else if i = 1 then Vec3 a v c else Vec3 a b v)"

definition zero3 :: vec3 where
  \<comment> \<open>the zero value \<^verbatim>\<open>[3]float32{}\<close>\<close>
  "zero3 = Vec3 0 0 0"

definition vec3_eq :: "vec3 \<Rightarrow> vec3 \<Rightarrow> bool" where
  \<comment> \<open>Go's \<^verbatim>\<open>==\<close> on arrays: every pair of components compares equal\<close>
  "vec3_eq u v = (f32_eq (idx u 0) (idx v 0) \<and> f32_eq (idx u 1) (idx v 1) \<and> f32_eq (idx u 2) (idx v 2))"

record TrackerData =
  ID :: int
  Position :: vec3
  Rotation :: vec3

definition zeroTrackerData :: TrackerData where
  \<comment> \<open>the zero value \<^verbatim>\<open>TrackerData{}\<close>\<close>
  "zeroTrackerData = \<lparr>ID = 0, Position = zero3, Rotation = zero3\<rparr>"

text \<open>
  The manager: the map from id to record and the two buffered channels, each a queue
  with its oldest element first. The lock and the capacity of the channels are not
  modelled: every function below runs alone from start to end, and a send never blocks.
\<close>

record TrackerManager =
  trackers :: "int \<rightharpoonup> TrackerData"
  updateCh :: "TrackerData list"
  forwardCh :: "TrackerData list"

definition NewTrackerManager :: TrackerManager where
  "NewTrackerManager = \<lparr>trackers = Map.empty, updateCh = [], forwardCh = []\<rparr>"

section \<open>Inversion detection and correction\<close>

definition threshold :: float32 where
  "threshold = f32_const 170"

definition exceeds_threshold :: "float32 \<Rightarrow> float32 \<Rightarrow> bool" where
  \<comment> \<open>\<^verbatim>\<open>math.Abs(float64(old[i]-new[i])) > float64(threshold)\<close>\<close>
  "exceeds_threshold x y = f64_gt (math_Abs (float64_of (f32_sub x y))) (float64_of threshold)"

function detect_loop :: "vec3 \<Rightarrow> vec3 \<Rightarrow> nat \<Rightarrow> bool" where
  "detect_loop old new i =
     (if i < 3 then
        (if exceeds_threshold (idx old i) (idx new i) then True
         else detect_loop old new (i + 1))
      else False)"
  by pat_completeness auto
termination
  by (relation "measure (\<lambda>(old, new, i). 3 - i)") auto

declare detect_loop.simps [simp del]

definition detectOrientationInversion :: "vec3 \<Rightarrow> vec3 \<Rightarrow> bool" where
  "detectOrientationInversion old new = detect_loop old new 0"

function invert_loop :: "vec3 \<Rightarrow> vec3 \<Rightarrow> nat \<Rightarrow> vec3" where
  "invert_loop orientation inverted i =
     (if i < 3 then
        (let inverted1 = upd inverted i (f32_add (idx orientation i) (f32_const 180));
             inverted2 = (if f32_gt (idx inverted1 i) (f32_const 180)
                          then upd inverted1 i (f32_sub (idx inverted1 i) (f32_const 360))
                          else inverted1)
         in invert_loop orientation inverted2 (i + 1))
      else inverted)"
  by pat_completeness auto
termination
  by (relation "measure (\<lambda>(orientation, inverted, i). 3 - i)") auto

declare invert_loop.simps [simp del]

definition invertOrientation :: "vec3 \<Rightarrow> vec3" where
  "invertOrientation orientation = invert_loop orientation zero3 0"

section \<open>The update worker and point reads\<close>

text \<open>
  One iteration of the loop of \<^verbatim>\<open>processUpdates\<close>, for the value \<open>data\<close> received from
  the update channel. Each iteration has its own variable \<open>data\<close> (Go 1.22 and later), so
  the pointer stored in the map is to a record that nothing writes afterwards, and the
  map is modelled as holding the record itself.
\<close>

definition processUpdate :: "TrackerManager \<Rightarrow> TrackerData \<Rightarrow> TrackerManager" where
  "processUpdate tm data =
     (let data1 =
            (case trackers tm (ID data) of
               Some tracker \<Rightarrow>
                 if detectOrientationInversion (Rotation tracker) (Rotation data)
                 then data\<lparr>Rotation := invertOrientation (Rotation data)\<rparr>
                 else data
             | None \<Rightarrow> data)
      in tm\<lparr>trackers := (trackers tm)(ID data1 \<mapsto> data1),
             forwardCh := forwardCh tm @ [data1]\<rparr>)"

fun processAll :: "TrackerManager \<Rightarrow> TrackerData list \<Rightarrow> TrackerManager" where
  "processAll tm [] = tm"
| "processAll tm (data # rest) = processAll (processUpdate tm data) rest"

definition processUpdates :: "TrackerManager \<Rightarrow> TrackerManager" where
  \<comment> \<open>the worker, run until the update channel is empty\<close>
  "processUpdates tm = processAll (tm\<lparr>updateCh := []\<rparr>) (updateCh tm)"

definition UpdateTracker :: "TrackerManager \<Rightarrow> TrackerData \<Rightarrow> TrackerManager" where
  "UpdateTracker tm data = tm\<lparr>updateCh := updateCh tm @ [data]\<rparr>"

definition GetTrackerData :: "TrackerManager \<Rightarrow> int \<Rightarrow> (TrackerData \<times> bool) \<times> TrackerManager" where
  \<comment> \<open>the result and the manager after the call\<close>
  "GetTrackerData tm tid =
     (case trackers tm tid of
        Some tracker \<Rightarrow> ((tracker, True), tm)
      | None \<Rightarrow> ((zeroTrackerData, False), tm))"

section \<open>Messages and the library functions used on them\<close>

text \<open>
  An OSC message is an address and a list of arguments of the types the OSC library
  decodes; \<^verbatim>\<open>parseMessage\<close> asks of an argument only whether it is a \<^verbatim>\<open>float32\<close>.
\<close>

datatype osc_arg =
    ArgInt32 "32 word"
  | ArgFloat32 float32
  | ArgString string
  | ArgBlob "8 word list"
  | ArgInt64 "64 word"
  | ArgFloat64 float64
  | ArgBool bool
  | ArgNil
  | ArgTimetag "64 word"

record osc_Message =
  Address :: string
  Arguments :: "osc_arg list"

text \<open>
  \<^verbatim>\<open>strings.Split(s, sep)\<close> for a separator of one byte (its only use is with \<^verbatim>\<open>"/"\<close>):
  the pieces of \<open>s\<close> between the separators, one more than there are separators.
\<close>

fun strings_Split :: "string \<Rightarrow> char \<Rightarrow> string list" where
  "strings_Split [] sep = [[]]"
| "strings_Split (c # cs) sep =
     (if c = sep then [] # strings_Split cs sep
      else (case strings_Split cs sep of
              [] \<Rightarrow> [[c]]
            | p # ps \<Rightarrow> (c # p) # ps))"

fun strings_HasPrefix :: "string \<Rightarrow> string \<Rightarrow> bool" where
  "strings_HasPrefix s [] = True"
| "strings_HasPrefix [] (p # ps) = False"
| "strings_HasPrefix (c # cs) (p # ps) = (c = p \<and> strings_HasPrefix cs ps)"

fun strings_Contains :: "string \<Rightarrow> string \<Rightarrow> bool" where
  "strings_Contains [] substr = (substr = [])"
| "strings_Contains (c # cs) substr =
     (strings_HasPrefix (c # cs) substr \<or> strings_Contains cs substr)"

text \<open>
  \<^verbatim>\<open>strconv.Atoi\<close> with a 64-bit \<^verbatim>\<open>int\<close>: an optional sign, then one or more decimal
  digits and nothing else; a value outside the range of \<^verbatim>\<open>int\<close> is an error. \<open>None\<close>
  stands for a non-nil error.
\<close>

definition digit_of :: "char \<Rightarrow> int option" where
  "digit_of ch =
     (if of_char (CHR ''0'') \<le> (of_char ch :: nat) \<and> (of_char ch :: nat) \<le> of_char (CHR ''9'')
      then Some (int (of_char ch) - int (of_char (CHR ''0'')))
      else None)"

fun parse_digits :: "int \<Rightarrow> string \<Rightarrow> int option" where
  "parse_digits n [] = Some n"
| "parse_digits n (ch # s) =
     (case digit_of ch of
        None \<Rightarrow> None
      | Some d \<Rightarrow> parse_digits (n * 10 + d) s)"

definition strconv_Atoi :: "string \<Rightarrow> int option" where
  "strconv_Atoi s0 =
     (if s0 = [] then None
      else let neg = (hd s0 = CHR ''-'');
               s = (if hd s0 = CHR ''-'' \<or> hd s0 = CHR ''+'' then tl s0 else s0)
           in if s = [] then None
              else (case parse_digits 0 s of
                      None \<Rightarrow> None
                    | Some un \<Rightarrow>
                        let n = (if neg then - un else un)
                        in if - (2 ^ 63) \<le> n \<and> n < 2 ^ 63 then Some n else None))"

text \<open>The verb \<^verbatim>\<open>%d\<close> of \<^verbatim>\<open>fmt.Sprintf\<close>: the decimal digits, after a minus sign if negative.\<close>

function digits :: "int \<Rightarrow> string" where
  "digits n =
     (if n < 10 then [char_of (48 + n)]
      else digits (n div 10) @ [char_of (48 + n mod 10)])"
  by pat_completeness auto
termination
  by (relation "measure nat") auto

declare digits.simps [simp del]

definition fmt_d :: "int \<Rightarrow> string" where
  "fmt_d n = (if n < 0 then CHR ''-'' # digits (- n) else digits n)"

section \<open>The address translator\<close>

function values_loop :: "osc_arg list \<Rightarrow> vec3 \<Rightarrow> nat \<Rightarrow> vec3 option" where
  \<comment> \<open>the loop that fills \<open>values\<close>; \<open>None\<close> is its early return\<close>
  "values_loop args vals i =
     (if i < 3 then
        (case args ! i of
           ArgFloat32 v \<Rightarrow> values_loop args (upd vals i v) (i + 1)
         | _ \<Rightarrow> None)
      else Some vals)"
  by pat_completeness auto
termination
  by (relation "measure (\<lambda>(args, vals, i). 3 - i)") auto

declare values_loop.simps [simp del]

definition parseMessage :: "osc_Message \<Rightarrow> TrackerData \<times> bool" where
  "parseMessage msg =
     (let parts = strings_Split (Address msg) (CHR ''/'')
      in if length parts < 4 \<or> parts ! 1 \<noteq> ''tracking'' \<or> parts ! 2 \<noteq> ''trackers''
         then (zeroTrackerData, False)
         else (case strconv_Atoi (parts ! 3) of
                 None \<Rightarrow> (zeroTrackerData, False)
               | Some n \<Rightarrow>
                   if length (Arguments msg) \<noteq> 3 then (zeroTrackerData, False)
                   else (case values_loop (Arguments msg) zero3 0 of
                           None \<Rightarrow> (zeroTrackerData, False)
                         | Some vals \<Rightarrow>
                             let data = \<lparr>ID = n, Position = zero3, Rotation = zero3\<rparr>
                             in if strings_Contains (Address msg) ''position''
                                then (data\<lparr>Position := vals\<rparr>, True)
                                else if strings_Contains (Address msg) ''rotation''
                                then (data\<lparr>Rotation := vals\<rparr>, True)
                                else (zeroTrackerData, False))))"

definition msgHandler :: "TrackerManager \<Rightarrow> osc_Message \<Rightarrow> TrackerManager" where
  \<comment> \<open>the handler that \<^verbatim>\<open>main\<close> registers for every address\<close>
  "msgHandler tm msg =
     (if strings_Contains (Address msg) ''tracking''
      then (case parseMessage msg of
              (data, ok) \<Rightarrow> if \<not> ok then tm else UpdateTracker tm data)
      else tm)"

section \<open>The forwarder\<close>

text \<open>
  The forwarder hands messages to \<^verbatim>\<open>client.Send\<close>; a failed send is logged and
  changes nothing else. The model returns the messages handed over, in order.
\<close>

definition vec3_args :: "vec3 \<Rightarrow> osc_arg list" where
  "vec3_args v = [ArgFloat32 (idx v 0), ArgFloat32 (idx v 1), ArgFloat32 (idx v 2)]"

definition posMsg :: "TrackerData \<Rightarrow> osc_Message" where
  "posMsg data =
     \<lparr>Address = ''/tracking/trackers/'' @ fmt_d (ID data) @ ''/position'',
      Arguments = vec3_args (Position data)\<rparr>"

definition rotMsg :: "TrackerData \<Rightarrow> osc_Message" where
  "rotMsg data =
     \<lparr>Address = ''/tracking/trackers/'' @ fmt_d (ID data) @ ''/rotation'',
      Arguments = vec3_args (Rotation data)\<rparr>"

definition forwardOne :: "TrackerData \<Rightarrow> osc_Message list" where
  \<comment> \<open>one iteration of the loop of \<^verbatim>\<open>forwardUpdatedData\<close>\<close>
  "forwardOne data =
     (if \<not> vec3_eq (Position data) zero3 then [posMsg data] else []) @
     (if \<not> vec3_eq (Rotation data) zero3 then [rotMsg data] else [])"

fun forwardUpdatedData :: "TrackerData list \<Rightarrow> osc_Message list" where
  "forwardUpdatedData [] = []"
| "forwardUpdatedData (data # rest) = forwardOne data @ forwardUpdatedData rest"

section \<open>Notions of the specification\<close>

text \<open>
  The correction of one axis in the words of the specification: add 180, then subtract
  360 if the sum exceeds 180.
\<close>

definition corrected_axis :: "float32 \<Rightarrow> float32" where
  "corrected_axis x =
     (let corrected = f32_add x (f32_const 180)
      in if f32_gt corrected (f32_const 180) then f32_sub corrected (f32_const 360)
         else corrected)"

text \<open>A flip is detected for an update: a record is stored under its id and the check fires.\<close>

definition flip_detected :: "TrackerManager \<Rightarrow> TrackerData \<Rightarrow> bool" where
  "flip_detected tm data =
     (case trackers tm (ID data) of
        None \<Rightarrow> False
      | Some tracker \<Rightarrow> detectOrientationInversion (Rotation tracker) (Rotation data))"

text \<open>
  The address rule of the translator: at least four segments, the second and third
  \<^verbatim>\<open>tracking\<close> and \<^verbatim>\<open>trackers\<close>, the fourth read by \<^verbatim>\<open>Atoi\<close> as \<open>n\<close>. The specification
  asks in addition that the id is not negative; \<open>spec_address_ok\<close> is its rule.
\<close>

definition address_ok :: "string \<Rightarrow> int \<Rightarrow> bool" where
  "address_ok addr n =
     (let parts = strings_Split addr (CHR ''/'')
      in 4 \<le> length parts \<and> parts ! 1 = ''tracking'' \<and> parts ! 2 = ''trackers'' \<and>
         strconv_Atoi (parts ! 3) = Some n)"

definition spec_address_ok :: "string \<Rightarrow> bool" where
  "spec_address_ok addr =
     (let parts = strings_Split addr (CHR ''/'')
      in 4 \<le> length parts \<and> parts ! 1 = ''tracking'' \<and> parts ! 2 = ''trackers'' \<and>
         (case strconv_Atoi (parts ! 3) of None \<Rightarrow> False | Some n \<Rightarrow> 0 \<le> n))"

definition is_float32 :: "osc_arg \<Rightarrow> bool" where
  "is_float32 a = (case a of ArgFloat32 v \<Rightarrow> True | _ \<Rightarrow> False)"

text \<open>
  A message of the shape the specification accepts: the address rule with an id that is
  not negative, exactly three arguments, each a \<^verbatim>\<open>float32\<close>, and \<^verbatim>\<open>position\<close> or
  \<^verbatim>\<open>rotation\<close> somewhere in the address.
\<close>

definition spec_wire_shape :: "osc_Message \<Rightarrow> bool" where
  "spec_wire_shape msg =
     (spec_address_ok (Address msg) \<and>
      length (Arguments msg) = 3 \<and> list_all is_float32 (Arguments msg) \<and>
      (strings_Contains (Address msg) ''position'' \<or> strings_Contains (Address msg) ''rotation''))"

section \<open>The loops, unrolled\<close>

lemma detect_axes:
  "detectOrientationInversion old new \<longleftrightarrow>
     exceeds_threshold (idx old 0) (idx new 0) \<or>
     exceeds_threshold (idx old 1) (idx new 1) \<or>
     exceeds_threshold (idx old 2) (idx new 2)"
proof -
  have three: "detect_loop old new (Suc (Suc (Suc 0))) = False"
    by (subst detect_loop.simps) simp
  have two: "detect_loop old new (Suc (Suc 0)) = exceeds_threshold (idx old 2) (idx new 2)"
    by (subst detect_loop.simps) (simp add: three numeral_2_eq_2)
  have one: "detect_loop old new (Suc 0) =
      (exceeds_threshold (idx old 1) (idx new 1) \<or> exceeds_threshold (idx old 2) (idx new 2))"
    by (subst detect_loop.simps) (simp add: two)
  show ?thesis
    unfolding detectOrientationInversion_def
    by (subst detect_loop.simps) (simp add: one)
qed

lemma invert_axes:
  "invertOrientation (Vec3 a b c) = Vec3 (corrected_axis a) (corrected_axis b) (corrected_axis c)"
proof -
  have three: "invert_loop v w (Suc (Suc (Suc 0))) = w" for v w
    by (subst invert_loop.simps) simp
  have two: "invert_loop (Vec3 a b c) (Vec3 x y z) (Suc (Suc 0)) = Vec3 x y (corrected_axis c)"
    for x y z
    by (subst invert_loop.simps) (simp add: three corrected_axis_def Let_def)
  have one: "invert_loop (Vec3 a b c) (Vec3 x y z) (Suc 0) =
      Vec3 x (corrected_axis b) (corrected_axis c)" for x y z
    by (subst invert_loop.simps) (simp add: two corrected_axis_def Let_def)
  show ?thesis
    unfolding invertOrientation_def zero3_def
    by (subst invert_loop.simps) (simp add: one corrected_axis_def Let_def)
qed

lemma values_loop_floats:
  "values_loop [ArgFloat32 a, ArgFloat32 b, ArgFloat32 c] (Vec3 x y z) 0 = Some (Vec3 a b c)"
proof -
  have three: "values_loop args v (Suc (Suc (Suc 0))) = Some v" for args v
    by (subst values_loop.simps) simp
  have two: "values_loop [ArgFloat32 a, ArgFloat32 b, ArgFloat32 c] (Vec3 p q r) (Suc (Suc 0)) =
      Some (Vec3 p q c)" for p q r
    by (subst values_loop.simps) (simp add: three)
  have one: "values_loop [ArgFloat32 a, ArgFloat32 b, ArgFloat32 c] (Vec3 p q r) (Suc 0) =
      Some (Vec3 p b c)" for p q r
    by (subst values_loop.simps) (simp add: two)
  show ?thesis
    by (subst values_loop.simps) (simp add: one)
qed

lemma values_loop_Some:
  assumes "length args = 3" and "values_loop args vals 0 = Some v"
  shows "\<exists>a b c. args = [ArgFloat32 a, ArgFloat32 b, ArgFloat32 c]"
proof -
  from assms(1) obtain x y z where args: "args = [x, y, z]"
    by (cases args; cases "tl args"; cases "tl (tl args)") auto
  from assms(2) obtain a where x: "x = ArgFloat32 a"
    and s1: "values_loop args (upd vals 0 a) (Suc 0) = Some v"
    by (subst (asm) values_loop.simps) (auto simp: args split: osc_arg.splits)
  from s1 obtain b where y: "y = ArgFloat32 b"
    and s2: "values_loop args (upd (upd vals 0 a) (Suc 0) b) (Suc (Suc 0)) = Some v"
    by (subst (asm) values_loop.simps) (auto simp: args split: osc_arg.splits)
  from s2 obtain c where z: "z = ArgFloat32 c"
    by (subst (asm) values_loop.simps) (auto simp: args numeral_2_eq_2 split: osc_arg.splits)
  show ?thesis using args x y z by simp
qed

section \<open>One update\<close>

lemma processUpdate_lookup:
  "trackers (processUpdate tm data) (ID data) =
     Some (if flip_detected tm data then data\<lparr>Rotation := invertOrientation (Rotation data)\<rparr>
           else data)"
  by (simp add: processUpdate_def flip_detected_def Let_def split: option.splits)

lemma processUpdate_forwardCh:
  "forwardCh (processUpdate tm data) =
     forwardCh tm @ [if flip_detected tm data
                     then data\<lparr>Rotation := invertOrientation (Rotation data)\<rparr> else data]"
  by (simp add: processUpdate_def flip_detected_def Let_def split: option.splits)

lemma processUpdate_other:
  "tid \<noteq> ID data \<Longrightarrow> trackers (processUpdate tm data) tid = trackers tm tid"
  by (simp add: processUpdate_def Let_def split: option.splits)

text \<open>The float32 and float64 arithmetic of the examples, evaluated.\<close>

lemma exceeds_0_0: "\<not> exceeds_threshold 0 0"
  by code_simp

lemma exceeds_0_10: "\<not> exceeds_threshold 0 (f32_const 10)"
  by code_simp

lemma exceeds_0_170: "\<not> exceeds_threshold 0 (f32_const 170)"
  by code_simp

lemma exceeds_0_171: "exceeds_threshold 0 (f32_const 171)"
  by code_simp

lemma exceeds_0_179: "exceeds_threshold 0 (f32_const 179)"
  by code_simp

lemma corrected_179: "corrected_axis (f32_const 179) = f32_const (- 1)"
  by code_simp

lemma corrected_0: "corrected_axis 0 = f32_const 180"
  by code_simp

lemma f32_const_bits:
  "f32_const (- 1) = 0xBF800000" "f32_const 10 = 0x41200000" "f32_const 170 = 0x432A0000"
  "f32_const 179 = 0x43330000" "f32_const 180 = 0x43340000" "f32_const 360 = 0x43B40000"
  by code_simp+

section \<open>Equality with zero\<close>

lemma bits_zero:
  fixes u :: int
  assumes "0 \<le> u" "u < 2 ^ 32" "(u div 2 ^ 23) mod 2 ^ 8 = 0" "u mod 2 ^ 23 = 0"
  shows "u = 0 \<or> u = 2 ^ 31"
proof -
  define q where "q = u div 8388608"
  define r where "r = q div 256"
  have u: "u = 8388608 * q"
    using assms(4) div_mult_mod_eq [of u 8388608] by (simp add: q_def)
  have q0: "0 \<le> q" and q1: "q < 512"
    using assms(1,2) u by simp_all
  have "q mod 256 = 0"
    using assms(3) by (simp add: q_def)
  then have q: "q = 256 * r"
    using div_mult_mod_eq [of q 256] by (simp add: r_def)
  have "0 \<le> r" and "r < 2"
    using q0 q1 q by simp_all
  then have "r = 0 \<or> r = 1"
    by linarith
  then show ?thesis
    using u q by auto
qed

lemma f32_eq_pos_zero: "f32_eq 0 0"
  by code_simp

lemma f32_eq_neg_zero: "f32_eq 0x80000000 0"
  by code_simp

lemma f32_eq_zero: "f32_eq x 0 \<longleftrightarrow> x = 0 \<or> x = 0x80000000"
proof
  assume "x = 0 \<or> x = 0x80000000"
  then show "f32_eq x 0"
    using f32_eq_pos_zero f32_eq_neg_zero by blast
next
  assume eq: "f32_eq x 0"
  let ?u = "uint x"
  have z: "fp_exp 8 23 (0::32 word) = 0" "fp_frac 23 (0::32 word) = 0"
    by (simp_all add: fp_exp_def fp_frac_def)
  have nonneg: "0 \<le> fp_exp 8 23 x" "0 \<le> fp_frac 23 x"
    by (simp_all add: fp_exp_def fp_frac_def)
  from eq have units: "fp_units 8 23 (min (fp_scale 8 23 x) (fp_scale 8 23 (0::32 word))) x = 0"
    by (simp add: f32_eq_def fp_eq_def Let_def fp_units_def fp_mant_def z)
  then have mant: "fp_mant 8 23 x = 0"
    by (auto simp: fp_units_def Let_def split: if_splits)
  then have ef: "fp_exp 8 23 x = 0 \<and> fp_frac 23 x = 0"
    using nonneg by (auto simp: fp_mant_def split: if_splits)
  then have "(?u div 2 ^ 23) mod 2 ^ 8 = 0" "?u mod 2 ^ 23 = 0"
    by (simp_all add: fp_exp_def fp_frac_def take_bit_eq_mod drop_bit_eq_div)
  moreover have "0 \<le> ?u" "?u < 2 ^ 32"
    using uint_lt2p [of x] by simp_all
  ultimately have "?u = 0 \<or> ?u = 2 ^ 31"
    by (rule bits_zero [rotated 2])
  then show "x = 0 \<or> x = 0x80000000"
    by (auto simp: word_uint_eq_iff)
qed

text \<open>
  A vector compares equal to the zero vector exactly when each component is +0 or -0.
\<close>

lemma vec3_eq_zero3:
  "vec3_eq (Vec3 a b c) zero3 \<longleftrightarrow>
     (a = 0 \<or> a = 0x80000000) \<and> (b = 0 \<or> b = 0x80000000) \<and> (c = 0 \<or> c = 0x80000000)"
  by (simp add: vec3_eq_def zero3_def f32_eq_zero)

section \<open>The translator, case by case\<close>

lemma parseMessage_accepted:
  assumes "address_ok (Address msg) n"
    and "Arguments msg = [ArgFloat32 a, ArgFloat32 b, ArgFloat32 c]"
  shows "parseMessage msg =
     (if strings_Contains (Address msg) ''position''
      then (\<lparr>ID = n, Position = Vec3 a b c, Rotation = zero3\<rparr>, True)
      else if strings_Contains (Address msg) ''rotation''
      then (\<lparr>ID = n, Position = zero3, Rotation = Vec3 a b c\<rparr>, True)
      else (zeroTrackerData, False))"
  using assms
  by (simp add: parseMessage_def address_ok_def Let_def zero3_def values_loop_floats)

lemma parseMessage_rejected:
  "\<not> snd (parseMessage msg) \<Longrightarrow> parseMessage msg = (zeroTrackerData, False)"
  by (auto simp: parseMessage_def Let_def split: option.splits if_splits)

lemma parseMessage_True:
  assumes "snd (parseMessage msg)"
  shows "\<exists>a b c. address_ok (Address msg) (ID (fst (parseMessage msg))) \<and>
           Arguments msg = [ArgFloat32 a, ArgFloat32 b, ArgFloat32 c] \<and>
           (strings_Contains (Address msg) ''position'' \<or>
            strings_Contains (Address msg) ''rotation'')"
proof -
  let ?parts = "strings_Split (Address msg) (CHR ''/'')"
  from assms have shape: "4 \<le> length ?parts" "?parts ! 1 = ''tracking''" "?parts ! 2 = ''trackers''"
    by (auto simp: parseMessage_def Let_def split: if_splits)
  from assms shape obtain n where n: "strconv_Atoi (?parts ! 3) = Some n"
    by (cases "strconv_Atoi (?parts ! 3)") (auto simp: parseMessage_def Let_def)
  from assms shape n have len: "length (Arguments msg) = 3"
    by (auto simp: parseMessage_def Let_def split: if_splits)
  from assms shape n len obtain vals where vals: "values_loop (Arguments msg) zero3 0 = Some vals"
    by (cases "values_loop (Arguments msg) zero3 0") (auto simp: parseMessage_def Let_def)
  from values_loop_Some [OF len vals] obtain a b c
    where args: "Arguments msg = [ArgFloat32 a, ArgFloat32 b, ArgFloat32 c]" by blast
  from assms shape n len vals
  have kind: "strings_Contains (Address msg) ''position'' \<or> strings_Contains (Address msg) ''rotation''"
    by (auto simp: parseMessage_def Let_def split: if_splits)
  from shape n len vals kind have "ID (fst (parseMessage msg)) = n"
    by (auto simp: parseMessage_def Let_def)
  with shape n args kind show ?thesis
    by (auto simp: address_ok_def Let_def)
qed

section \<open>The claims about the tracker store\<close>

text \<open>
  C1, as the code has it. An update replaces the record stored under its id; nothing of
  the previous record is carried over. A rotation update (its position is the zero
  vector) is stored with the zero position and with its rotation, corrected if a flip is
  detected. A position update (its rotation is the zero vector) for which no flip is
  detected is stored with its position and the zero rotation. So a position update
  followed by a rotation update, for an id with no record before, leaves a record with
  the zero position and the new, possibly corrected, rotation.
\<close>

theorem update_replaces_record:
  "(Position data = zero3 \<longrightarrow>
      trackers (processUpdate tm data) (ID data) =
        Some \<lparr>ID = ID data, Position = zero3,
              Rotation = (if flip_detected tm data then invertOrientation (Rotation data)
                          else Rotation data)\<rparr>) \<and>
   (Rotation data = zero3 \<and> \<not> flip_detected tm data \<longrightarrow>
      trackers (processUpdate tm data) (ID data) =
        Some \<lparr>ID = ID data, Position = Position data, Rotation = zero3\<rparr>) \<and>
   (trackers tm (ID p) = None \<and> Rotation p = zero3 \<and> ID r = ID p \<and> Position r = zero3 \<longrightarrow>
      trackers (processAll tm [p, r]) (ID p) =
        Some \<lparr>ID = ID p, Position = zero3,
              Rotation = (if detectOrientationInversion zero3 (Rotation r)
                          then invertOrientation (Rotation r) else Rotation r)\<rparr>)"
proof (intro conjI impI)
  assume "Position data = zero3"
  then show "trackers (processUpdate tm data) (ID data) =
        Some \<lparr>ID = ID data, Position = zero3,
              Rotation = (if flip_detected tm data then invertOrientation (Rotation data)
                          else Rotation data)\<rparr>"
    unfolding processUpdate_lookup by (cases data) simp
next
  assume "Rotation data = zero3 \<and> \<not> flip_detected tm data"
  then show "trackers (processUpdate tm data) (ID data) =
        Some \<lparr>ID = ID data, Position = Position data, Rotation = zero3\<rparr>"
    unfolding processUpdate_lookup by (cases data) simp
next
  assume h: "trackers tm (ID p) = None \<and> Rotation p = zero3 \<and> ID r = ID p \<and> Position r = zero3"
  then have nop: "trackers tm (ID p) = None" and rp: "Rotation p = zero3"
    and idr: "ID r = ID p" and pr: "Position r = zero3"
    by simp_all
  have first: "trackers (processUpdate tm p) (ID p) = Some p"
    using nop by (simp add: processUpdate_lookup flip_detected_def)
  have flip: "flip_detected (processUpdate tm p) r = detectOrientationInversion zero3 (Rotation r)"
    using first rp by (simp add: flip_detected_def idr)
  have "trackers (processAll tm [p, r]) (ID p) =
      trackers (processUpdate (processUpdate tm p) r) (ID r)"
    by (simp add: idr)
  also have "\<dots> = Some (if flip_detected (processUpdate tm p) r
                         then r\<lparr>Rotation := invertOrientation (Rotation r)\<rparr> else r)"
    by (rule processUpdate_lookup)
  finally show "trackers (processAll tm [p, r]) (ID p) =
        Some \<lparr>ID = ID p, Position = zero3,
              Rotation = (if detectOrientationInversion zero3 (Rotation r)
                          then invertOrientation (Rotation r) else Rotation r)\<rparr>"
    using flip pr idr by (cases r) simp
qed

text \<open>
  The three cases at tracker 7 of a new manager: the rotation update (10, 0, 0), the
  position update (1, 2, 3), and the one after the other.
\<close>

theorem update_replaces_record_witness:
  "Position \<lparr>ID = 7, Position = zero3, Rotation = Vec3 (f32_const 10) 0 0\<rparr> = zero3 \<and>
   trackers (processUpdate NewTrackerManager
       \<lparr>ID = 7, Position = zero3, Rotation = Vec3 (f32_const 10) 0 0\<rparr>) 7 =
     Some \<lparr>ID = 7, Position = zero3, Rotation = Vec3 (f32_const 10) 0 0\<rparr> \<and>
   \<not> flip_detected NewTrackerManager
       \<lparr>ID = 7, Position = Vec3 (f32_const 1) (f32_const 2) (f32_const 3), Rotation = zero3\<rparr> \<and>
   trackers (processUpdate NewTrackerManager
       \<lparr>ID = 7, Position = Vec3 (f32_const 1) (f32_const 2) (f32_const 3), Rotation = zero3\<rparr>) 7 =
     Some \<lparr>ID = 7, Position = Vec3 (f32_const 1) (f32_const 2) (f32_const 3), Rotation = zero3\<rparr> \<and>
   trackers NewTrackerManager 7 = None \<and>
   trackers (processAll NewTrackerManager
       [\<lparr>ID = 7, Position = Vec3 (f32_const 1) (f32_const 2) (f32_const 3), Rotation = zero3\<rparr>,
        \<lparr>ID = 7, Position = zero3, Rotation = Vec3 (f32_const 10) 0 0\<rparr>]) 7 =
     Some \<lparr>ID = 7, Position = zero3, Rotation = Vec3 (f32_const 10) 0 0\<rparr>"
  using
    update_replaces_record
      [where tm = NewTrackerManager
         and data = "\<lparr>ID = 7, Position = zero3, Rotation = Vec3 (f32_const 10) 0 0\<rparr>"
         and p = "\<lparr>ID = 7, Position = Vec3 (f32_const 1) (f32_const 2) (f32_const 3),
                   Rotation = zero3\<rparr>"
         and r = "\<lparr>ID = 7, Position = zero3, Rotation = Vec3 (f32_const 10) 0 0\<rparr>"]
    update_replaces_record
      [where tm = NewTrackerManager
         and data = "\<lparr>ID = 7, Position = Vec3 (f32_const 1) (f32_const 2) (f32_const 3),
                      Rotation = zero3\<rparr>"
         and p = "\<lparr>ID = 7, Position = Vec3 (f32_const 1) (f32_const 2) (f32_const 3),
                   Rotation = zero3\<rparr>"
         and r = "\<lparr>ID = 7, Position = zero3, Rotation = Vec3 (f32_const 10) 0 0\<rparr>"]
  by (simp add: NewTrackerManager_def flip_detected_def detect_axes zero3_def
      exceeds_0_10 exceeds_0_0)

text \<open>
  C1 as stated fails: after the position (1, 2, 3) and then the rotation (10, 0, 0) for
  tracker 7, the stored record has the zero position, which is not (1, 2, 3).
\<close>

theorem no_merge_counterexample:
  "trackers (processUpdates (UpdateTracker (UpdateTracker NewTrackerManager
       \<lparr>ID = 7, Position = Vec3 (f32_const 1) (f32_const 2) (f32_const 3), Rotation = zero3\<rparr>)
       \<lparr>ID = 7, Position = zero3, Rotation = Vec3 (f32_const 10) 0 0\<rparr>)) 7 =
     Some \<lparr>ID = 7, Position = zero3, Rotation = Vec3 (f32_const 10) 0 0\<rparr> \<and>
   \<not> vec3_eq zero3 (Vec3 (f32_const 1) (f32_const 2) (f32_const 3))"
  by code_simp

text \<open>
  C2, as the code has it. With the stored rotation (0, 0, 0), the new rotation
  (179, 0, 0) is detected as a flip, and the correction is applied to every axis: the
  rotation stored is (-1, 180, 180).
\<close>

theorem flip_179_stored:
  assumes "trackers tm (ID data) = Some tracker"
    and "Rotation tracker = zero3"
    and "Rotation data = Vec3 (f32_const 179) 0 0"
  shows "detectOrientationInversion (Rotation tracker) (Rotation data) \<and>
         trackers (processUpdate tm data) (ID data) =
           Some (data\<lparr>Rotation := Vec3 (f32_const (- 1)) (f32_const 180) (f32_const 180)\<rparr>)"
  using assms
  by (simp add: processUpdate_lookup flip_detected_def invert_axes detect_axes zero3_def
      exceeds_0_179 corrected_179 corrected_0)

theorem flip_179_stored_witness:
  "trackers \<lparr>trackers = [1 \<mapsto> \<lparr>ID = 1, Position = zero3, Rotation = zero3\<rparr>],
             updateCh = [], forwardCh = []\<rparr> 1 =
     Some \<lparr>ID = 1, Position = zero3, Rotation = zero3\<rparr> \<and>
   trackers (processUpdate
       \<lparr>trackers = [1 \<mapsto> \<lparr>ID = 1, Position = zero3, Rotation = zero3\<rparr>],
        updateCh = [], forwardCh = []\<rparr>
       \<lparr>ID = 1, Position = zero3, Rotation = Vec3 (f32_const 179) 0 0\<rparr>) 1 =
     Some \<lparr>ID = 1, Position = zero3,
           Rotation = Vec3 (f32_const (- 1)) (f32_const 180) (f32_const 180)\<rparr>"
  using flip_179_stored
    [where tm = "\<lparr>trackers = [1 \<mapsto> \<lparr>ID = 1, Position = zero3, Rotation = zero3\<rparr>],
                  updateCh = [], forwardCh = []\<rparr>"
       and data = "\<lparr>ID = 1, Position = zero3, Rotation = Vec3 (f32_const 179) 0 0\<rparr>"
       and tracker = "\<lparr>ID = 1, Position = zero3, Rotation = zero3\<rparr>"]
  by simp

text \<open>
  C2 as stated fails: the rotation stored is (-1, 180, 180), and that is not (-1, 0, 0).
\<close>

theorem flip_179_counterexample:
  "trackers (processUpdate
       \<lparr>trackers = [1 \<mapsto> \<lparr>ID = 1, Position = zero3, Rotation = zero3\<rparr>],
        updateCh = [], forwardCh = []\<rparr>
       \<lparr>ID = 1, Position = zero3, Rotation = Vec3 (f32_const 179) 0 0\<rparr>) 1 =
     Some \<lparr>ID = 1, Position = zero3,
           Rotation = Vec3 (f32_const (- 1)) (f32_const 180) (f32_const 180)\<rparr> \<and>
   \<not> vec3_eq (Vec3 (f32_const (- 1)) (f32_const 180) (f32_const 180))
              (Vec3 (f32_const (- 1)) 0 0)"
  by code_simp

text \<open>
  C3, at an input where the code does otherwise. Tracker 7 receives the rotation
  (175, 0, 0) and then the position (1, 2, 3). The position update carries the zero
  rotation; the check compares it with the stored (175, 0, 0), detects a flip and
  corrects the zero rotation: the record stored has the rotation (180, 180, 180), and
  the forwarder sends a rotation message with it.
\<close>

theorem position_update_gets_corrected:
  "trackers (processUpdates (msgHandler (processUpdates (msgHandler NewTrackerManager
       \<lparr>Address = ''/tracking/trackers/7/rotation'',
        Arguments = [ArgFloat32 (f32_const 175), ArgFloat32 0, ArgFloat32 0]\<rparr>))
       \<lparr>Address = ''/tracking/trackers/7/position'',
        Arguments = [ArgFloat32 (f32_const 1), ArgFloat32 (f32_const 2),
                     ArgFloat32 (f32_const 3)]\<rparr>)) 7 =
     Some \<lparr>ID = 7, Position = Vec3 (f32_const 1) (f32_const 2) (f32_const 3),
           Rotation = Vec3 (f32_const 180) (f32_const 180) (f32_const 180)\<rparr> \<and>
   forwardUpdatedData (forwardCh (processUpdates (msgHandler (processUpdates
       (msgHandler NewTrackerManager
       \<lparr>Address = ''/tracking/trackers/7/rotation'',
        Arguments = [ArgFloat32 (f32_const 175), ArgFloat32 0, ArgFloat32 0]\<rparr>))
       \<lparr>Address = ''/tracking/trackers/7/position'',
        Arguments = [ArgFloat32 (f32_const 1), ArgFloat32 (f32_const 2),
                     ArgFloat32 (f32_const 3)]\<rparr>))) =
     [\<lparr>Address = ''/tracking/trackers/7/rotation'',
       Arguments = [ArgFloat32 (f32_const 175), ArgFloat32 0, ArgFloat32 0]\<rparr>,
      \<lparr>Address = ''/tracking/trackers/7/position'',
       Arguments = [ArgFloat32 (f32_const 1), ArgFloat32 (f32_const 2),
                    ArgFloat32 (f32_const 3)]\<rparr>,
      \<lparr>Address = ''/tracking/trackers/7/rotation'',
       Arguments = [ArgFloat32 (f32_const 180), ArgFloat32 (f32_const 180),
                    ArgFloat32 (f32_const 180)]\<rparr>]"
  by code_simp

text \<open>
  C4. The check reports a flip exactly when, on axis 0, 1 or 2, the absolute difference
  of the stored and the new component, computed as the code computes it, is greater than
  the threshold 170. With a stored rotation (0, 0, 0) and the new rotation (10, 0, 0) no
  flip is reported and the update is stored unchanged.
\<close>

theorem detect_iff_some_axis_exceeds:
  "(detectOrientationInversion old new \<longleftrightarrow>
      exceeds_threshold (idx old 0) (idx new 0) \<or>
      exceeds_threshold (idx old 1) (idx new 1) \<or>
      exceeds_threshold (idx old 2) (idx new 2)) \<and>
   (trackers tm (ID data) = Some tracker \<and> Rotation tracker = zero3 \<and>
    Rotation data = Vec3 (f32_const 10) 0 0 \<longrightarrow>
      \<not> detectOrientationInversion (Rotation tracker) (Rotation data) \<and>
      trackers (processUpdate tm data) (ID data) = Some data)"
  by (simp add: processUpdate_lookup flip_detected_def detect_axes zero3_def
      exceeds_0_10 exceeds_0_0)

text \<open>
  At tracker 1 with the stored rotation (0, 0, 0): the rotation (10, 0, 0) is stored as
  it is. The comparison is strict: a difference of exactly 170 is no flip, 171 is one.
\<close>

theorem detect_iff_some_axis_exceeds_witness:
  "trackers \<lparr>trackers = [1 \<mapsto> \<lparr>ID = 1, Position = zero3, Rotation = zero3\<rparr>],
             updateCh = [], forwardCh = []\<rparr> 1 =
     Some \<lparr>ID = 1, Position = zero3, Rotation = zero3\<rparr> \<and>
   trackers (processUpdate
       \<lparr>trackers = [1 \<mapsto> \<lparr>ID = 1, Position = zero3, Rotation = zero3\<rparr>],
        updateCh = [], forwardCh = []\<rparr>
       \<lparr>ID = 1, Position = zero3, Rotation = Vec3 (f32_const 10) 0 0\<rparr>) 1 =
     Some \<lparr>ID = 1, Position = zero3, Rotation = Vec3 (f32_const 10) 0 0\<rparr> \<and>
   \<not> detectOrientationInversion (Vec3 0 0 0) (Vec3 (f32_const 170) 0 0) \<and>
   detectOrientationInversion (Vec3 0 0 0) (Vec3 0 0 (f32_const 171))"
  using
    detect_iff_some_axis_exceeds
      [where tm = "\<lparr>trackers = [1 \<mapsto> \<lparr>ID = 1, Position = zero3, Rotation = zero3\<rparr>],
                    updateCh = [], forwardCh = []\<rparr>"
         and data = "\<lparr>ID = 1, Position = zero3, Rotation = Vec3 (f32_const 10) 0 0\<rparr>"
         and tracker = "\<lparr>ID = 1, Position = zero3, Rotation = zero3\<rparr>"
         and old = "Vec3 0 0 0" and new = "Vec3 (f32_const 170) 0 0"]
    detect_iff_some_axis_exceeds
      [where tm = "\<lparr>trackers = [1 \<mapsto> \<lparr>ID = 1, Position = zero3, Rotation = zero3\<rparr>],
                    updateCh = [], forwardCh = []\<rparr>"
         and data = "\<lparr>ID = 1, Position = zero3, Rotation = Vec3 (f32_const 10) 0 0\<rparr>"
         and tracker = "\<lparr>ID = 1, Position = zero3, Rotation = zero3\<rparr>"
         and old = "Vec3 0 0 0" and new = "Vec3 0 0 (f32_const 171)"]
  by (simp add: exceeds_0_0 exceeds_0_170 exceeds_0_171)

text \<open>
  C5. When a flip is detected, the rotation stored is the new rotation corrected axis by
  axis: 180 is added, and 360 is subtracted if the sum is greater than 180.
\<close>

theorem flip_stores_corrected_rotation:
  assumes "trackers tm (ID data) = Some tracker"
    and "detectOrientationInversion (Rotation tracker) (Rotation data)"
    and "Rotation data = Vec3 a b c"
  shows "trackers (processUpdate tm data) (ID data) =
           Some (data\<lparr>Rotation := Vec3 (corrected_axis a) (corrected_axis b) (corrected_axis c)\<rparr>)"
  using assms by (simp add: processUpdate_lookup flip_detected_def invert_axes)

theorem flip_stores_corrected_rotation_witness:
  "trackers \<lparr>trackers = [2 \<mapsto> \<lparr>ID = 2, Position = zero3, Rotation = Vec3 0 0 0\<rparr>],
             updateCh = [], forwardCh = []\<rparr> 2 =
     Some \<lparr>ID = 2, Position = zero3, Rotation = Vec3 0 0 0\<rparr> \<and>
   detectOrientationInversion (Vec3 0 0 0) (Vec3 (f32_const 179) 0 0) \<and>
   trackers (processUpdate
       \<lparr>trackers = [2 \<mapsto> \<lparr>ID = 2, Position = zero3, Rotation = Vec3 0 0 0\<rparr>],
        updateCh = [], forwardCh = []\<rparr>
       \<lparr>ID = 2, Position = zero3, Rotation = Vec3 (f32_const 179) 0 0\<rparr>) 2 =
     Some \<lparr>ID = 2, Position = zero3,
           Rotation = Vec3 (corrected_axis (f32_const 179)) (corrected_axis 0)
                        (corrected_axis 0)\<rparr>"
proof -
  have flip: "detectOrientationInversion (Vec3 0 0 0) (Vec3 (f32_const 179) 0 0)"
    by (simp add: detect_axes exceeds_0_179)
  show ?thesis
    using flip
      flip_stores_corrected_rotation
        [where tm = "\<lparr>trackers = [2 \<mapsto> \<lparr>ID = 2, Position = zero3, Rotation = Vec3 0 0 0\<rparr>],
                      updateCh = [], forwardCh = []\<rparr>"
           and data = "\<lparr>ID = 2, Position = zero3, Rotation = Vec3 (f32_const 179) 0 0\<rparr>"
           and tracker = "\<lparr>ID = 2, Position = zero3, Rotation = Vec3 0 0 0\<rparr>"
           and a = "f32_const 179" and b = 0 and c = 0]
    by simp
qed

text \<open>
  C6. An update for an id with no record is stored, and forwarded, exactly as it
  arrived, whatever its rotation.
\<close>

theorem first_update_stored_as_is:
  assumes "trackers tm (ID data) = None"
  shows "trackers (processUpdate tm data) (ID data) = Some data \<and>
         forwardCh (processUpdate tm data) = forwardCh tm @ [data]"
  using assms by (simp add: processUpdate_lookup processUpdate_forwardCh flip_detected_def)

text \<open>The first update of tracker 4, with the rotation (179, 0, 0).\<close>

theorem first_update_stored_as_is_witness:
  "trackers NewTrackerManager 4 = None \<and>
   trackers (processUpdate NewTrackerManager
      \<lparr>ID = 4, Position = zero3, Rotation = Vec3 (f32_const 179) 0 0\<rparr>) 4 =
     Some \<lparr>ID = 4, Position = zero3, Rotation = Vec3 (f32_const 179) 0 0\<rparr>"
  using first_update_stored_as_is
    [of NewTrackerManager "\<lparr>ID = 4, Position = zero3, Rotation = Vec3 (f32_const 179) 0 0\<rparr>"]
  by (simp add: NewTrackerManager_def)

section \<open>The claims about the translator and the forwarder\<close>

text \<open>
  C7, as the code has it. A message is accepted only if its address has at least four
  segments, the second \<^verbatim>\<open>tracking\<close>, the third \<^verbatim>\<open>trackers\<close>, and the fourth read by
  \<^verbatim>\<open>strconv.Atoi\<close> as an integer, which then is the id of the update: a signed decimal
  number, so a negative id is accepted. A message whose address is not of that form is
  rejected with the zero record and \<open>False\<close>.
\<close>

theorem parseMessage_accepts_only_tracker_addresses:
  "(snd (parseMessage msg) \<longrightarrow> address_ok (Address msg) (ID (fst (parseMessage msg)))) \<and>
   ((\<forall>n. \<not> address_ok (Address msg) n) \<longrightarrow> parseMessage msg = (zeroTrackerData, False))"
  using parseMessage_True [of msg] parseMessage_rejected [of msg] by blast

theorem parseMessage_accepts_only_tracker_addresses_witness:
  "snd (parseMessage \<lparr>Address = ''/tracking/trackers/12/position'',
        Arguments = [ArgFloat32 0, ArgFloat32 0, ArgFloat32 0]\<rparr>) \<and>
   address_ok ''/tracking/trackers/12/position'' 12 \<and>
   (\<forall>n. \<not> address_ok ''/tracking/12'' n) \<and>
   parseMessage \<lparr>Address = ''/tracking/12'',
        Arguments = [ArgFloat32 0, ArgFloat32 0, ArgFloat32 0]\<rparr> = (zeroTrackerData, False)"
proof -
  have acc: "parseMessage \<lparr>Address = ''/tracking/trackers/12/position'',
        Arguments = [ArgFloat32 0, ArgFloat32 0, ArgFloat32 0]\<rparr> =
      (\<lparr>ID = 12, Position = zero3, Rotation = zero3\<rparr>, True)"
    by code_simp
  have short: "length (strings_Split ''/tracking/12'' (CHR ''/'')) = 3"
    by code_simp
  have no: "\<forall>n. \<not> address_ok ''/tracking/12'' n"
    by (simp add: address_ok_def Let_def short)
  show ?thesis
    using acc no
      parseMessage_accepts_only_tracker_addresses
        [of "\<lparr>Address = ''/tracking/trackers/12/position'',
              Arguments = [ArgFloat32 0, ArgFloat32 0, ArgFloat32 0]\<rparr>"]
      parseMessage_accepts_only_tracker_addresses
        [of "\<lparr>Address = ''/tracking/12'',
              Arguments = [ArgFloat32 0, ArgFloat32 0, ArgFloat32 0]\<rparr>"]
    by simp
qed

text \<open>
  C7 as stated fails: the address \<^verbatim>\<open>/tracking/trackers/-5/position\<close> is accepted, with
  the id -5, although its fourth segment is not an integer that is not negative.
\<close>

theorem negative_id_accepted_counterexample:
  "snd (parseMessage \<lparr>Address = ''/tracking/trackers/-5/position'',
        Arguments = [ArgFloat32 0, ArgFloat32 0, ArgFloat32 0]\<rparr>) \<and>
   ID (fst (parseMessage \<lparr>Address = ''/tracking/trackers/-5/position'',
        Arguments = [ArgFloat32 0, ArgFloat32 0, ArgFloat32 0]\<rparr>)) = - 5 \<and>
   \<not> spec_address_ok ''/tracking/trackers/-5/position''"
  by code_simp

text \<open>
  C8. For a record taken from the forward channel, the position message is sent exactly
  when the position does not compare equal to the zero vector, and the rotation message
  exactly when the rotation does not; nothing else is sent.
\<close>

theorem forward_emits_nonzero_fields:
  "(posMsg data \<in> set (forwardOne data) \<longleftrightarrow> \<not> vec3_eq (Position data) zero3) \<and>
   (rotMsg data \<in> set (forwardOne data) \<longleftrightarrow> \<not> vec3_eq (Rotation data) zero3) \<and>
   set (forwardOne data) \<subseteq> {posMsg data, rotMsg data}"
  by (auto simp: forwardOne_def posMsg_def rotMsg_def)

text \<open>A record with the position (1, 2, 3) and the zero rotation: one message, the position.\<close>

theorem forward_emits_nonzero_fields_witness:
  "forwardUpdatedData
     [\<lparr>ID = 3, Position = Vec3 (f32_const 1) (f32_const 2) (f32_const 3), Rotation = zero3\<rparr>] =
     [\<lparr>Address = ''/tracking/trackers/3/position'',
       Arguments = [ArgFloat32 (f32_const 1), ArgFloat32 (f32_const 2),
                    ArgFloat32 (f32_const 3)]\<rparr>] \<and>
   posMsg \<lparr>ID = 3, Position = Vec3 (f32_const 1) (f32_const 2) (f32_const 3), Rotation = zero3\<rparr>
     \<in> set (forwardOne
         \<lparr>ID = 3, Position = Vec3 (f32_const 1) (f32_const 2) (f32_const 3), Rotation = zero3\<rparr>) \<and>
   rotMsg \<lparr>ID = 3, Position = Vec3 (f32_const 1) (f32_const 2) (f32_const 3), Rotation = zero3\<rparr>
     \<notin> set (forwardOne
         \<lparr>ID = 3, Position = Vec3 (f32_const 1) (f32_const 2) (f32_const 3), Rotation = zero3\<rparr>)"
proof -
  have nz: "\<not> vec3_eq (Vec3 (f32_const 1) (f32_const 2) (f32_const 3)) zero3"
    by code_simp
  have z: "vec3_eq zero3 zero3"
    by code_simp
  have out: "forwardUpdatedData
     [\<lparr>ID = 3, Position = Vec3 (f32_const 1) (f32_const 2) (f32_const 3), Rotation = zero3\<rparr>] =
     [\<lparr>Address = ''/tracking/trackers/3/position'',
       Arguments = [ArgFloat32 (f32_const 1), ArgFloat32 (f32_const 2),
                    ArgFloat32 (f32_const 3)]\<rparr>]"
    by code_simp
  show ?thesis
    using nz z out
      forward_emits_nonzero_fields
        [of "\<lparr>ID = 3, Position = Vec3 (f32_const 1) (f32_const 2) (f32_const 3),
              Rotation = zero3\<rparr>"]
    by simp
qed

text \<open>
  C9, as the code has it. A message whose address satisfies the address rule with the
  id \<open>n\<close> (negative or not) and that carries exactly three arguments, each a \<^verbatim>\<open>float32\<close>,
  is accepted with the id \<open>n\<close> and its position filled if the address contains
  \<^verbatim>\<open>position\<close>, else with its rotation filled if the address contains \<^verbatim>\<open>rotation\<close>, and
  is rejected if it contains neither. Every accepted message is of that form, and a
  rejected message yields the zero record and \<open>False\<close>.
\<close>

theorem parseMessage_shapes:
  "(address_ok (Address msg) n \<and> Arguments msg = [ArgFloat32 a, ArgFloat32 b, ArgFloat32 c] \<longrightarrow>
      parseMessage msg =
        (if strings_Contains (Address msg) ''position''
         then (\<lparr>ID = n, Position = Vec3 a b c, Rotation = zero3\<rparr>, True)
         else if strings_Contains (Address msg) ''rotation''
         then (\<lparr>ID = n, Position = zero3, Rotation = Vec3 a b c\<rparr>, True)
         else (zeroTrackerData, False))) \<and>
   (snd (parseMessage msg) \<longrightarrow>
      (\<exists>n a b c. address_ok (Address msg) n \<and>
         Arguments msg = [ArgFloat32 a, ArgFloat32 b, ArgFloat32 c] \<and>
         (strings_Contains (Address msg) ''position'' \<or>
          strings_Contains (Address msg) ''rotation''))) \<and>
   (\<not> snd (parseMessage msg) \<longrightarrow> parseMessage msg = (zeroTrackerData, False))"
  using parseMessage_accepted [of msg n a b c] parseMessage_True [of msg]
    parseMessage_rejected [of msg]
  by blast

text \<open>
  A rotation message for tracker 5 is accepted; with an \<^verbatim>\<open>int32\<close> among its arguments
  it is rejected. An address with both words is a position update.
\<close>

theorem parseMessage_shapes_witness:
  "address_ok ''/tracking/trackers/5/rotation'' 5 \<and>
   parseMessage \<lparr>Address = ''/tracking/trackers/5/rotation'',
        Arguments = [ArgFloat32 (f32_const 1), ArgFloat32 (f32_const 2),
                     ArgFloat32 (f32_const 3)]\<rparr> =
     (\<lparr>ID = 5, Position = zero3,
       Rotation = Vec3 (f32_const 1) (f32_const 2) (f32_const 3)\<rparr>, True) \<and>
   address_ok ''/tracking/trackers/5/rotation/position'' 5 \<and>
   parseMessage \<lparr>Address = ''/tracking/trackers/5/rotation/position'',
        Arguments = [ArgFloat32 (f32_const 1), ArgFloat32 (f32_const 2),
                     ArgFloat32 (f32_const 3)]\<rparr> =
     (\<lparr>ID = 5, Position = Vec3 (f32_const 1) (f32_const 2) (f32_const 3),
       Rotation = zero3\<rparr>, True) \<and>
   \<not> snd (parseMessage \<lparr>Address = ''/tracking/trackers/5/rotation'',
        Arguments = [ArgFloat32 (f32_const 1), ArgInt32 2, ArgFloat32 (f32_const 3)]\<rparr>) \<and>
   parseMessage \<lparr>Address = ''/tracking/trackers/5/rotation'',
        Arguments = [ArgFloat32 (f32_const 1), ArgInt32 2, ArgFloat32 (f32_const 3)]\<rparr> =
     (zeroTrackerData, False)"
proof -
  have a1: "address_ok ''/tracking/trackers/5/rotation'' 5"
    by code_simp
  have a2: "address_ok ''/tracking/trackers/5/rotation/position'' 5"
    by code_simp
  have c1: "\<not> strings_Contains ''/tracking/trackers/5/rotation'' ''position''"
    "strings_Contains ''/tracking/trackers/5/rotation'' ''rotation''"
    "strings_Contains ''/tracking/trackers/5/rotation/position'' ''position''"
    by code_simp+
  have rej: "\<not> snd (parseMessage \<lparr>Address = ''/tracking/trackers/5/rotation'',
        Arguments = [ArgFloat32 (f32_const 1), ArgInt32 2, ArgFloat32 (f32_const 3)]\<rparr>)"
    by code_simp
  show ?thesis
    using a1 a2 c1 rej
      parseMessage_shapes
        [where msg = "\<lparr>Address = ''/tracking/trackers/5/rotation'',
             Arguments = [ArgFloat32 (f32_const 1), ArgFloat32 (f32_const 2),
                          ArgFloat32 (f32_const 3)]\<rparr>"
           and n = 5 and a = "f32_const 1" and b = "f32_const 2" and c = "f32_const 3"]
      parseMessage_shapes
        [where msg = "\<lparr>Address = ''/tracking/trackers/5/rotation/position'',
             Arguments = [ArgFloat32 (f32_const 1), ArgFloat32 (f32_const 2),
                          ArgFloat32 (f32_const 3)]\<rparr>"
           and n = 5 and a = "f32_const 1" and b = "f32_const 2" and c = "f32_const 3"]
      parseMessage_shapes
        [where msg = "\<lparr>Address = ''/tracking/trackers/5/rotation'',
             Arguments = [ArgFloat32 (f32_const 1), ArgInt32 2, ArgFloat32 (f32_const 3)]\<rparr>"]
    by simp
qed

text \<open>
  C9 as stated fails: a message with the id -1 is not of the shape the specification
  accepts, and it is not rejected.
\<close>

theorem negative_id_shape_counterexample:
  "\<not> spec_wire_shape \<lparr>Address = ''/tracking/trackers/-1/rotation'',
        Arguments = [ArgFloat32 (f32_const 1), ArgFloat32 (f32_const 2),
                     ArgFloat32 (f32_const 3)]\<rparr> \<and>
   parseMessage \<lparr>Address = ''/tracking/trackers/-1/rotation'',
        Arguments = [ArgFloat32 (f32_const 1), ArgFloat32 (f32_const 2),
                     ArgFloat32 (f32_const 3)]\<rparr> =
     (\<lparr>ID = - 1, Position = zero3,
       Rotation = Vec3 (f32_const 1) (f32_const 2) (f32_const 3)\<rparr>, True)"
  by code_simp

text \<open>
  C10. For an id with no record, \<^verbatim>\<open>GetTrackerData\<close> returns the zero record and \<open>False\<close>;
  for every id it leaves the manager, and so the map, as it was.
\<close>

theorem GetTrackerData_missing_and_frame:
  "(trackers tm tid = None \<longrightarrow> fst (GetTrackerData tm tid) = (zeroTrackerData, False)) \<and>
   snd (GetTrackerData tm tid) = tm"
  by (simp add: GetTrackerData_def split: option.splits)

theorem GetTrackerData_missing_and_frame_witness:
  "trackers NewTrackerManager 3 = None \<and>
   fst (GetTrackerData NewTrackerManager 3) =
     (\<lparr>ID = 0, Position = Vec3 0 0 0, Rotation = Vec3 0 0 0\<rparr>, False) \<and>
   snd (GetTrackerData NewTrackerManager 3) = NewTrackerManager"
  using GetTrackerData_missing_and_frame [of NewTrackerManager 3]
  by (simp add: NewTrackerManager_def zeroTrackerData_def zero3_def)

end
